theory Spec2Isabelle
  imports Complex_Main "HOL-Library.Stream"
begin

section \<open>Python strings and errors\<close>

text \<open>
  Python \<open>str\<close> values are modelled as HOL strings; a character stands for the code
  point of the same number, 0 to 255. On these code points the character classes used by
  \<open>tools/setup_workspace.py\<close> are those of Python: \<open>str.isdigit\<close> holds of \<open>0\<close> to \<open>9\<close>
  and of the superscript digits 178, 179 and 185; \<open>str.isdecimal\<close>, the digits that \<open>int\<close>
  reads, holds of \<open>0\<close> to \<open>9\<close> only; \<open>str.strip()\<close> removes the code points 9 to 13, 28
  to 32, 133 and 160; \<open>str.lower\<close> maps \<open>A\<close>-\<open>Z\<close> and the capital letters 192 to 222,
  but for 215, to the code point 32 higher. Python integers are unbounded and modelled by
  \<open>int\<close>.
\<close>

datatype py_error =
    AssertionError
  | AttributeError
  | KeyError
  | ValueError
  | EOFError
  | URLError
  | JSONDecodeError
  | OSError

definition is_digit :: "char \<Rightarrow> bool" where
  "is_digit c =
     (let n = (of_char c :: nat) in (48 \<le> n \<and> n \<le> 57) \<or> n = 178 \<or> n = 179 \<or> n = 185)"

definition is_decimal :: "char \<Rightarrow> bool" where
  "is_decimal c = (48 \<le> (of_char c :: nat) \<and> (of_char c :: nat) \<le> 57)"

definition is_space :: "char \<Rightarrow> bool" where
  "is_space c =
     (let n = (of_char c :: nat)
      in (9 \<le> n \<and> n \<le> 13) \<or> (28 \<le> n \<and> n \<le> 32) \<or> n = 133 \<or> n = 160)"

definition lower_chr :: "char \<Rightarrow> char" where
  "lower_chr c =
     (let n = (of_char c :: nat)
      in if (65 \<le> n \<and> n \<le> 90) \<or> (192 \<le> n \<and> n \<le> 222 \<and> n \<noteq> 215)
         then char_of (n + 32) else c)"

definition lower :: "string \<Rightarrow> string" where
  "lower s = map lower_chr s"

definition strip :: "string \<Rightarrow> string" where
  "strip s = rev (dropWhile is_space (rev (dropWhile is_space s)))"

text \<open>\<open>s.split(sep)\<close> for a one-character separator: never an empty list.\<close>

fun split_on :: "char \<Rightarrow> string \<Rightarrow> string list" where
  "split_on sep [] = [[]]"
| "split_on sep (c # cs) =
     (if c = sep then [] # split_on sep cs
      else (case split_on sep cs of
              [] \<Rightarrow> [[c]]
            | p # ps \<Rightarrow> (c # p) # ps))"

text \<open>The value of a run of decimal digits.\<close>

definition int_of_digits :: "string \<Rightarrow> int" where
  "int_of_digits num = foldl (\<lambda>acc c. 10 * acc + (int (of_char c) - 48)) 0 num"

text \<open>
  \<open>int(num)\<close> on a non-empty run of characters that satisfy \<open>str.isdigit\<close>. It raises
  \<open>ValueError\<close> on a superscript digit, and on a run longer than the interpreter's limit
  for the conversion of a string to an integer, 4300 digits unless reconfigured.
\<close>

definition int_max_str_digits :: nat where
  "int_max_str_digits = 4300"

definition py_int :: "string \<Rightarrow> py_error + int" where
  "py_int num =
     (if list_all is_decimal num \<and> length num \<le> int_max_str_digits
      then Inr (int_of_digits num)
      else Inl ValueError)"

text \<open>\<open>k in name\<close> on strings: \<open>k\<close> occurs in \<open>name\<close> as a contiguous substring.\<close>

fun contains :: "string \<Rightarrow> string \<Rightarrow> bool" where
  "contains s [] = (s = [])"
| "contains s (c # cs) = (take (length s) (c # cs) = s \<or> contains s cs)"

section \<open>VersionComparator: \<open>parse_semver\<close> and \<open>compare_semver\<close>\<close>

text \<open>
  The body of the loop over the parts in \<open>parse_semver\<close>: the leading digits of one part
  read by \<open>int\<close>, or 0 when there are none.
\<close>

definition part_number :: "string \<Rightarrow> py_error + int" where
  "part_number part =
     (let num = takeWhile is_digit part
      in if num = [] then Inr 0 else py_int num)"

text \<open>The loop over the parts: it ends at the first part on which \<open>int\<close> raises.\<close>

fun part_numbers :: "string list \<Rightarrow> py_error + int list" where
  "part_numbers [] = Inr []"
| "part_numbers (part # parts) =
     (case part_number part of
        Inl e \<Rightarrow> Inl e
      | Inr n \<Rightarrow>
          (case part_numbers parts of
             Inl e \<Rightarrow> Inl e
           | Inr numbers \<Rightarrow> Inr (n # numbers)))"

definition parse_semver :: "string \<Rightarrow> py_error + int list" where
  "parse_semver version =
     (if version = [] then Inr []
      else
        let v = strip version;
            v = (case v of
                   [] \<Rightarrow> v
                 | c # rest \<Rightarrow> if c = CHR ''v'' \<or> c = CHR ''V'' then rest else v);
            v = (if CHR ''-'' \<in> set v then takeWhile (\<lambda>c. c \<noteq> CHR ''-'') v else v);
            parts = split_on CHR ''.'' v
        in part_numbers parts)"

text \<open>Truthiness of an \<open>str | None\<close> argument: \<open>None\<close> and \<open>""\<close> are falsy.\<close>

definition truthy_str :: "string option \<Rightarrow> bool" where
  "truthy_str a = (case a of None \<Rightarrow> False | Some s \<Rightarrow> s \<noteq> [])"

text \<open>\<open>a or ""\<close>.\<close>

definition or_empty :: "string option \<Rightarrow> string" where
  "or_empty a = (case a of None \<Rightarrow> [] | Some s \<Rightarrow> s)"

text \<open>The \<open>for l, r in zip(left, right)\<close> loop of \<open>compare_semver\<close>.\<close>

fun compare_loop :: "(int \<times> int) list \<Rightarrow> int" where
  "compare_loop [] = 0"
| "compare_loop ((l, r) # rest) =
     (if l > r then 1 else if l < r then - 1 else compare_loop rest)"

text \<open>\<open>compare_semver\<close>: the result, or the exception that \<open>parse_semver\<close> raises.\<close>

definition compare_semver :: "string option \<Rightarrow> string option \<Rightarrow> py_error + int" where
  "compare_semver a b =
     (if \<not> truthy_str a \<and> \<not> truthy_str b then Inr 0
      else if truthy_str a \<and> \<not> truthy_str b then Inr 1
      else if truthy_str b \<and> \<not> truthy_str a then Inr (- 1)
      else
        (case parse_semver (or_empty a) of
           Inl e \<Rightarrow> Inl e
         | Inr left \<Rightarrow>
             (case parse_semver (or_empty b) of
                Inl e \<Rightarrow> Inl e
              | Inr right \<Rightarrow>
                  let max_len = max (length left) (length right);
                      left = left @ replicate (max_len - length left) 0;
                      right = right @ replicate (max_len - length right) 0
                  in Inr (compare_loop (zip left right)))))"

text \<open>
  The comparison rule in the words of the specification: both sequences are padded on the
  right with zeros to equal length; the first position where they differ decides; equal
  padded sequences compare equal.
\<close>

definition pad_to :: "nat \<Rightarrow> int list \<Rightarrow> int list" where
  "pad_to n xs = xs @ replicate (n - length xs) 0"

definition spec_compare :: "int list \<Rightarrow> int list \<Rightarrow> int" where
  "spec_compare xs ys =
     (let n = max (length xs) (length ys)
      in case find (\<lambda>(l, r). l \<noteq> r) (zip (pad_to n xs) (pad_to n ys)) of
           None \<Rightarrow> 0
         | Some (l, r) \<Rightarrow> if l > r then 1 else - 1)"



section \<open>JSON values\<close>

text \<open>
  What \<open>json.loads\<close> returns: \<open>None\<close>, booleans, integers, strings, lists and dicts with
  string keys (a dict is an association list read by \<open>map_of\<close>). JSON floats are left out.
  \<open>JNull\<close> is also Python's \<open>None\<close> wherever the code returns or receives it.
\<close>

datatype json =
    JNull
  | JBool bool
  | JInt int
  | JStr string
  | JArr "json list"
  | JObj "(string \<times> json) list"

text \<open>Python truthiness of a JSON value.\<close>

fun truthy :: "json \<Rightarrow> bool" where
  "truthy JNull = False"
| "truthy (JBool b) = b"
| "truthy (JInt n) = (n \<noteq> 0)"
| "truthy (JStr s) = (s \<noteq> [])"
| "truthy (JArr xs) = (xs \<noteq> [])"
| "truthy (JObj kvs) = (kvs \<noteq> [])"

text \<open>\<open>d.get(key, default)\<close>; \<open>d.get(key)\<close> is \<open>dict_get d key JNull\<close>.\<close>

definition dict_get :: "(string \<times> json) list \<Rightarrow> string \<Rightarrow> json \<Rightarrow> json" where
  "dict_get d key dflt = (case map_of d key of None \<Rightarrow> dflt | Some v \<Rightarrow> v)"

text \<open>\<open>x or y\<close> on values.\<close>

definition py_or :: "json \<Rightarrow> json \<Rightarrow> json" where
  "py_or x y = (if truthy x then x else y)"

section \<open>ReleaseResolver: \<open>get_latest_release_url\<close>\<close>

type_synonym release = "json \<times> json \<times> json"

text \<open>The \<open>for asset in assets\<close> loop for one tag; \<open>Inr None\<close> when the loop ends without a match.\<close>

fun scan_assets :: "string list \<Rightarrow> (string \<times> json) list \<Rightarrow> json list \<Rightarrow> py_error + release option" where
  "scan_assets keywords tag [] = Inr None"
| "scan_assets keywords tag (asset # rest) =
     (case asset of
        JObj a \<Rightarrow>
          (case map_of a ''name'' of
             None \<Rightarrow> Inl KeyError
           | Some (JStr n) \<Rightarrow>
               (let name = lower n
                in if list_all (\<lambda>k. contains (lower k) name) keywords
                   then (let tag_name = py_or (dict_get tag ''tag_name'' JNull) (dict_get tag ''name'' JNull)
                         in case map_of a ''browser_download_url'' of
                              None \<Rightarrow> Inl KeyError
                            | Some url \<Rightarrow> Inr (Some (url, JStr n, tag_name)))
                   else scan_assets keywords tag rest)
           | Some _ \<Rightarrow> Inl AttributeError)
      | _ \<Rightarrow> Inl AssertionError)"

text \<open>The \<open>for tag in tags\<close> loop and the \<open>raise ValueError\<close> after it.\<close>

fun scan_tags :: "bool \<Rightarrow> string list \<Rightarrow> json list \<Rightarrow> py_error + release" where
  "scan_tags prerelease keywords [] = Inl ValueError"
| "scan_tags prerelease keywords (tag # rest) =
     (case tag of
        JObj t \<Rightarrow>
          if (\<not> prerelease \<and> truthy (dict_get t ''prerelease'' (JBool False)))
             \<or> truthy (dict_get t ''draft'' (JBool False))
          then scan_tags prerelease keywords rest
          else (case dict_get t ''assets'' (JArr []) of
                  JArr assets \<Rightarrow>
                    (case scan_assets keywords t assets of
                       Inl e \<Rightarrow> Inl e
                     | Inr (Some found) \<Rightarrow> Inr found
                     | Inr None \<Rightarrow> scan_tags prerelease keywords rest)
                | _ \<Rightarrow> Inl AssertionError)
      | _ \<Rightarrow> Inl AssertionError)"

text \<open>
  The body of the \<open>try\<close> block. \<open>fetched\<close> is what the request and \<open>json.loads\<close> yield for
  the repository: the parsed feed, or the exception raised on the way.
\<close>

definition release_try :: "py_error + json \<Rightarrow> string list \<Rightarrow> bool \<Rightarrow> py_error + release" where
  "release_try fetched keywords prerelease =
     (case fetched of
        Inl e \<Rightarrow> Inl e
      | Inr (JArr tags) \<Rightarrow>
          if tags = [] then Inl ValueError else scan_tags prerelease keywords tags
      | Inr _ \<Rightarrow> Inl AssertionError)"

definition not_found :: release where
  "not_found = (JNull, JNull, JNull)"

definition get_latest_release_url ::
  "(string \<Rightarrow> py_error + json) \<Rightarrow> string \<Rightarrow> string list \<Rightarrow> bool \<Rightarrow> release" where
  "get_latest_release_url net repo keywords prerelease =
     (case release_try (net repo) keywords prerelease of
        Inl e \<Rightarrow> not_found
      | Inr found \<Rightarrow> found)"

section \<open>Auxiliary comparison on sequences of any length\<close>


section \<open>The resolver in the words of the specification\<close>

text \<open>
  The definitions of this section follow the specification, not the code: a tag is
  excluded when prereleases are rejected and it is marked prerelease, or when it is marked
  draft; an asset matches when its lower-cased filename contains every lower-cased
  keyword; the result is the first match among the assets of the eligible tags, in feed
  order and listed order.
\<close>

definition is_prerelease :: "(string \<times> json) list \<Rightarrow> bool" where
  "is_prerelease t = truthy (dict_get t ''prerelease'' (JBool False))"

definition is_draft :: "(string \<times> json) list \<Rightarrow> bool" where
  "is_draft t = truthy (dict_get t ''draft'' (JBool False))"

definition tag_skipped :: "bool \<Rightarrow> (string \<times> json) list \<Rightarrow> bool" where
  "tag_skipped allow_prerelease t = ((\<not> allow_prerelease \<and> is_prerelease t) \<or> is_draft t)"

definition obj_of :: "json \<Rightarrow> (string \<times> json) list" where
  "obj_of v = (case v of JObj d \<Rightarrow> d | _ \<Rightarrow> [])"

definition assets_of :: "json \<Rightarrow> json list" where
  "assets_of tag = (case dict_get (obj_of tag) ''assets'' (JArr []) of JArr assets \<Rightarrow> assets | _ \<Rightarrow> [])"

definition asset_matches :: "string list \<Rightarrow> json \<Rightarrow> bool" where
  "asset_matches keywords asset =
     (case map_of (obj_of asset) ''name'' of
        Some (JStr n) \<Rightarrow> list_all (\<lambda>k. contains (lower k) (lower n)) keywords
      | _ \<Rightarrow> False)"

definition candidates :: "bool \<Rightarrow> json list \<Rightarrow> (json \<times> json) list" where
  "candidates allow_prerelease tags =
     concat (map (\<lambda>tag. map (\<lambda>asset. (tag, asset)) (assets_of tag))
                 (filter (\<lambda>tag. \<not> tag_skipped allow_prerelease (obj_of tag)) tags))"

definition resolved :: "json \<Rightarrow> json \<Rightarrow> release" where
  "resolved tag asset =
     (dict_get (obj_of asset) ''browser_download_url'' JNull,
      dict_get (obj_of asset) ''name'' JNull,
      py_or (dict_get (obj_of tag) ''tag_name'' JNull) (dict_get (obj_of tag) ''name'' JNull))"

definition spec_resolve :: "bool \<Rightarrow> string list \<Rightarrow> json list \<Rightarrow> release" where
  "spec_resolve allow_prerelease keywords tags =
     (case find (\<lambda>(tag, asset). asset_matches keywords asset) (candidates allow_prerelease tags) of
        None \<Rightarrow> not_found
      | Some (tag, asset) \<Rightarrow> resolved tag asset)"

text \<open>
  A feed of the shape the release service documents: every tag is an object whose
  \<open>assets\<close> entry, when present, is a list of objects that each carry a string \<open>name\<close> and a
  \<open>browser_download_url\<close>.
\<close>

definition wf_asset :: "json \<Rightarrow> bool" where
  "wf_asset asset =
     (case asset of
        JObj a \<Rightarrow>
          (case map_of a ''name'' of
             Some (JStr n) \<Rightarrow> map_of a ''browser_download_url'' \<noteq> None
           | _ \<Rightarrow> False)
      | _ \<Rightarrow> False)"

definition wf_tag :: "json \<Rightarrow> bool" where
  "wf_tag tag =
     (case tag of
        JObj t \<Rightarrow>
          (case dict_get t ''assets'' (JArr []) of
             JArr assets \<Rightarrow> list_all wf_asset assets
           | _ \<Rightarrow> False)
      | _ \<Rightarrow> False)"

definition wf_feed :: "json list \<Rightarrow> bool" where
  "wf_feed tags = list_all wf_tag tags"

text \<open>A network on which the release feed of every repository is the list \<open>tags\<close>.\<close>

definition serving :: "json list \<Rightarrow> string \<Rightarrow> py_error + json" where
  "serving tags repo = Inr (JArr tags)"

section \<open>Example feeds\<close>

text \<open>
  Concrete feeds on which the theorems below are instantiated. \<open>example_feed\<close> lists an
  older release before a newer one; its first tag carries two assets that match only some
  of the keywords \<open>maa\<close>, \<open>linux\<close>, \<open>x86_64\<close> before one that matches all of them.
\<close>

definition asset_entry :: "string \<Rightarrow> string \<Rightarrow> json" where
  "asset_entry n url = JObj [(''name'', JStr n), (''browser_download_url'', JStr url)]"

definition example_feed :: "json list" where
  "example_feed =
    [JObj [(''tag_name'', JStr ''v1.0''), (''prerelease'', JBool False), (''draft'', JBool False),
           (''assets'', JArr
              [asset_entry ''checksums.txt'' ''u0'',
               asset_entry ''MAA-win-x86_64.zip'' ''u1'',
               asset_entry ''MAA-Linux-x86_64.tar.gz'' ''u2''])],
     JObj [(''tag_name'', JStr ''v2.0''), (''prerelease'', JBool False), (''draft'', JBool False),
           (''assets'', JArr [asset_entry ''MAA-linux-x86_64.tar.gz'' ''u3''])]]"

definition draft_tag :: "(string \<times> json) list" where
  "draft_tag =
    [(''tag_name'', JStr ''v3.0''), (''prerelease'', JBool False), (''draft'', JBool True),
     (''assets'', JArr [asset_entry ''MAA-linux-x86_64.tar.gz'' ''u4''])]"

definition beta_tag :: "(string \<times> json) list" where
  "beta_tag =
    [(''tag_name'', JStr ''v2.1-beta''), (''prerelease'', JBool True), (''draft'', JBool False),
     (''assets'', JArr [asset_entry ''MAA-linux-x86_64.tar.gz'' ''u5''])]"

section \<open>VersionLedger: \<open>read_versions_file\<close>\<close>

text \<open>Decimal rendering of a natural number, as \<open>str\<close> and \<open>format\<close> produce it.\<close>

fun show_nat :: "nat \<Rightarrow> string" where
  "show_nat n =
     (if n < 10 then [char_of (48 + n)]
      else show_nat (n div 10) @ [char_of (48 + n mod 10)])"

text \<open>
  \<open>str(v)\<close> on a JSON value. On lists and dicts \<open>str\<close> is Python's \<open>repr\<close>, which is taken
  as the parameter \<open>container_repr\<close>.
\<close>

fun py_str :: "(json \<Rightarrow> string) \<Rightarrow> json \<Rightarrow> string" where
  "py_str container_repr JNull = ''None''"
| "py_str container_repr (JBool b) = (if b then ''True'' else ''False'')"
| "py_str container_repr (JInt n) = (if n < 0 then ''-'' @ show_nat (nat (- n)) else show_nat (nat n))"
| "py_str container_repr (JStr s) = s"
| "py_str container_repr v = container_repr v"

text \<open>
  What the file system holds at the path: \<open>path.exists()\<close> raises (the path cannot be
  examined), no file, a file that \<open>open\<close> or \<open>json.load\<close> rejects with an exception, or a
  file that \<open>json.load\<close> reads as a value.
\<close>

datatype version_file =
    ExistsRaised py_error
  | FileMissing
  | FileUnreadable py_error
  | FileLoaded json

type_synonym ledger = "string \<rightharpoonup> string"

text \<open>
  The statements of the \<open>try\<close> block after \<open>json.load\<close>; \<open>Inr None\<close> when the block ends
  without returning. The keys of a JSON object are strings, so \<open>str(k)\<close> is \<open>k\<close>.
\<close>

definition read_versions_try :: "(json \<Rightarrow> string) \<Rightarrow> json \<Rightarrow> py_error + ledger option" where
  "read_versions_try container_repr data =
     (case data of
        JObj d \<Rightarrow>
          (case dict_get d ''versions'' (JObj []) of
             JObj versions \<Rightarrow>
               Inr (Some (\<lambda>k. map_option (py_str container_repr) (map_of versions k)))
           | _ \<Rightarrow> Inr None)
      | _ \<Rightarrow> Inl AttributeError)"

text \<open>
  \<open>read_versions_file\<close>: the mapping returned, or the exception that leaves the function.
  The test \<open>path.exists()\<close> stands before the \<open>try\<close> block, so its exception is not caught.
\<close>

definition read_versions_file :: "(json \<Rightarrow> string) \<Rightarrow> version_file \<Rightarrow> py_error + ledger" where
  "read_versions_file container_repr file =
     (case file of
        ExistsRaised e \<Rightarrow> Inl e
      | FileMissing \<Rightarrow> Inr Map.empty
      | FileUnreadable e \<Rightarrow> Inr Map.empty
      | FileLoaded data \<Rightarrow>
          (case read_versions_try container_repr data of
             Inr (Some versions) \<Rightarrow> Inr versions
           | Inr None \<Rightarrow> Inr Map.empty
           | Inl e \<Rightarrow> Inr Map.empty))"

section \<open>ProgressDownloader: \<open>download_file\<close>\<close>

text \<open>
  Floats are modelled by exact rationals. The float formatting \<open>f"{x:.1f}"\<close> is the
  parameter \<open>fmt\<close> of the rendering functions.
\<close>

definition to_percentage :: "(rat \<Rightarrow> string) \<Rightarrow> rat \<Rightarrow> rat \<Rightarrow> string" where
  "to_percentage fmt current tot =
     (if tot > 0 then fmt ((current / tot) * 100) @ ''%'' else '''')"

fun size_loop :: "(rat \<Rightarrow> string) \<Rightarrow> rat \<Rightarrow> string list \<Rightarrow> string" where
  "size_loop fmt s [] = ''--''"
| "size_loop fmt s (unit # units) =
     (if s < 1024 \<or> unit = ''TB'' then fmt s @ '' '' @ unit
      else size_loop fmt (s / 1024) units)"

definition to_file_size :: "(rat \<Rightarrow> string) \<Rightarrow> int option \<Rightarrow> string" where
  "to_file_size fmt sz =
     (case sz of
        None \<Rightarrow> ''--''
      | Some n \<Rightarrow>
          if n < 0 then ''--''
          else size_loop fmt (of_int n) [''B'', ''KB'', ''MB'', ''GB'', ''TB''])"

fun speed_loop :: "(rat \<Rightarrow> string) \<Rightarrow> rat \<Rightarrow> string list \<Rightarrow> string" where
  "speed_loop fmt s [] = ''--/s''"
| "speed_loop fmt s (unit # units) =
     (if s < 1024 \<or> unit = ''GB/s'' then fmt s @ '' '' @ unit
      else speed_loop fmt (s / 1024) units)"

definition to_speed :: "(rat \<Rightarrow> string) \<Rightarrow> rat \<Rightarrow> string" where
  "to_speed fmt bps =
     (if bps \<le> 0 then ''--/s''
      else speed_loop fmt bps [''B/s'', ''KB/s'', ''MB/s'', ''GB/s''])"

text \<open>\<open>f"{n:02d}"\<close> for a non-negative integer.\<close>

definition pad2 :: "nat \<Rightarrow> string" where
  "pad2 n = (let s = show_nat n in replicate (2 - length s) CHR ''0'' @ s)"

definition seconds_to_hms :: "rat option \<Rightarrow> string" where
  "seconds_to_hms sec =
     (case sec of
        None \<Rightarrow> ''--:--:--''
      | Some x \<Rightarrow>
          if x < 0 then ''--:--:--''
          else
            let sec = nat \<lfloor>x\<rfloor>;
                h = sec div 3600;
                m = (sec mod 3600) div 60;
                s = sec mod 60
            in pad2 h @ '':'' @ pad2 m @ '':'' @ pad2 s)"

text \<open>
  The \<open>Content-Length\<close> header of the response: absent, the empty string, a text that
  \<open>int\<close> reads as a number, or a text that \<open>int\<close> rejects.
\<close>

datatype content_length =
    NoHeader
  | EmptyHeader
  | IntHeader int
  | BadHeader

text \<open>\<open>int(res.headers.get("Content-Length", 0) or 0)\<close>.\<close>

definition size_total_of :: "content_length \<Rightarrow> py_error + int" where
  "size_total_of h =
     (case h of
        NoHeader \<Rightarrow> Inr 0
      | EmptyHeader \<Rightarrow> Inr 0
      | IntHeader n \<Rightarrow> Inr n
      | BadHeader \<Rightarrow> Inl ValueError)"

text \<open>
  The progress text of one iteration of the read loop; \<open>clock\<close> is
  \<open>time.time() - start_ts\<close> in seconds.
\<close>

definition progress_str :: "(rat \<Rightarrow> string) \<Rightarrow> int \<Rightarrow> int \<Rightarrow> rat \<Rightarrow> string" where
  "progress_str fmt size_received size_total clock =
     (let elapsed = max (1 / 1000000) clock;
          speed = of_int size_received / elapsed;
          eta = (if size_total > 0 \<and> speed > 0
                 then Some ((of_int size_total - of_int size_received) / speed)
                 else None)
      in to_file_size fmt (Some size_received) @ ''/'' @ to_file_size fmt (Some size_total)
         @ '' ('' @ to_percentage fmt (of_int size_received) (of_int size_total) @ '') | ''
         @ to_speed fmt speed @ '' | ETA '' @ seconds_to_hms eta)"

text \<open>
  One call of \<open>res.read(8192)\<close>: a chunk of some length together with the clock reading
  taken after it, or an exception. The end of the list is the empty chunk that ends the
  body.
\<close>

datatype read = Chunk nat rat | ReadError py_error

text \<open>
  The \<open>while True\<close> loop: whether it ended without an exception, and the progress texts
  printed, one for each change of the text.
\<close>

fun read_loop :: "(rat \<Rightarrow> string) \<Rightarrow> int \<Rightarrow> int \<Rightarrow> string \<Rightarrow> read list \<Rightarrow> bool \<times> string list" where
  "read_loop fmt size_total size_received cached [] = (True, [])"
| "read_loop fmt size_total size_received cached (ReadError e # reads) = (False, [])"
| "read_loop fmt size_total size_received cached (Chunk len clock # reads) =
     (if len = 0 then (True, [])
      else
        let size_received = size_received + int len;
            line = progress_str fmt size_received size_total clock
        in if line \<noteq> cached
           then (let (ok, printed) = read_loop fmt size_total size_received line reads
                 in (ok, line # printed))
           else read_loop fmt size_total size_received cached reads)"

text \<open>
  What \<open>urlopen\<close> and \<open>open\<close> yield: an exception, or a response with its header and the
  reads of its body.
\<close>

datatype connection =
    ConnectFailed py_error
  | Connected content_length "read list"

definition download_file :: "(rat \<Rightarrow> string) \<Rightarrow> connection \<Rightarrow> bool \<times> string list" where
  "download_file fmt conn =
     (case conn of
        ConnectFailed e \<Rightarrow> (False, [])
      | Connected h reads \<Rightarrow>
          (case size_total_of h of
             Inl e \<Rightarrow> (False, [])
           | Inr size_total \<Rightarrow> read_loop fmt size_total 0 '''' reads))"

section \<open>InstallOrchestrator and LockedReplaceInstaller: \<open>install_maafw\<close>, \<open>install_mxu\<close>\<close>

definition MFW_REPO :: string where
  "MFW_REPO = ''MaaXYZ/MaaFramework''"

definition MXU_REPO :: string where
  "MXU_REPO = ''MistEO/MXU''"

text \<open>
  One attempt to remove the old installation (\<open>shutil.rmtree\<close>, \<open>Path.unlink\<close>): it
  succeeds, raises \<open>PermissionError\<close>, or raises another exception.
\<close>

datatype rm_outcome = RmOk | RmPermissionError | RmOtherError

text \<open>One call of \<open>input\<close>: a line typed by the operator, or \<open>EOFError\<close> at the end of input.\<close>

datatype reply = Line string | EndOfInput

text \<open>How the \<open>while True\<close> loop around the removal is left.\<close>

datatype loop_exit = Removed | Quit | Fatal | InputFailed

text \<open>What the \<open>try\<close> block after the removal does with the downloaded archive.\<close>

datatype payload = UnpackRaised | PayloadMissing | PayloadCopied

text \<open>The network calls an install makes, in order.\<close>

datatype event = Resolve string | Download json

text \<open>
  The surroundings of one install: the release feeds, whether the expected artifact is on
  disk at entry, the outcome of \<open>download_file\<close> for a URL, whether the destination exists
  after the download, the outcomes of the successive removal attempts, the successive
  results of \<open>input\<close>, and the outcome of unpacking.
\<close>

record world =
  feeds :: "string \<Rightarrow> py_error + json"
  artifact_installed :: bool
  connect :: "json \<Rightarrow> connection"
  float_fmt :: "rat \<Rightarrow> string"
  dest_exists :: bool
  removals :: "rm_outcome stream"
  replies :: "reply stream"
  unpack :: payload

type_synonym install_result = "bool \<times> json \<times> bool"

text \<open>A \<open>str | None\<close> value as a Python value.\<close>

definition opt_json :: "string option \<Rightarrow> json" where
  "opt_json v = (case v of None \<Rightarrow> JNull | Some s \<Rightarrow> JStr s)"

text \<open>
  The removal loop of both functions (\<open>while True\<close> with \<open>try\<close>, \<open>except PermissionError\<close>
  and \<open>except Exception\<close>). It need not end: \<open>None\<close> stands for a run that never leaves it.
  An \<open>EOFError\<close> from \<open>input\<close> is raised inside the handler and leaves the function.
\<close>

partial_function (option) removal_loop :: "rm_outcome stream \<Rightarrow> reply stream \<Rightarrow> loop_exit option" where
  "removal_loop outcomes inputs =
     (case shd outcomes of
        RmOk \<Rightarrow> Some Removed
      | RmOtherError \<Rightarrow> Some Fatal
      | RmPermissionError \<Rightarrow>
          (case shd inputs of
             EndOfInput \<Rightarrow> Some InputFailed
           | Line s \<Rightarrow>
               if lower (strip s) = ''q'' then Some Quit
               else removal_loop (stl outcomes) (stl inputs)))"

text \<open>\<open>if dest.exists(): while True: ...\<close>\<close>

definition remove_old :: "world \<Rightarrow> loop_exit option" where
  "remove_old w = (if dest_exists w then removal_loop (removals w) (replies w) else Some Removed)"

text \<open>
  The update check
  \<open>update_mode and installed and local_version and remote_version and compare_semver(...) >= 0\<close>.
  An exception of \<open>compare_semver\<close> leaves the install. A truthy remote version that is
  not a string makes \<open>parse_semver\<close> raise on \<open>version.strip()\<close>, after the local version
  has been parsed.
\<close>

definition version_current :: "bool \<Rightarrow> bool \<Rightarrow> string option \<Rightarrow> json \<Rightarrow> py_error + bool" where
  "version_current update_mode installed local_version remote_version =
     (if update_mode \<and> installed \<and> truthy_str local_version \<and> truthy remote_version
      then (case remote_version of
              JStr s \<Rightarrow>
                (case compare_semver local_version (Some s) of
                   Inl e \<Rightarrow> Inl e
                 | Inr c \<Rightarrow> Inr (c \<ge> 0))
            | _ \<Rightarrow>
                (case parse_semver (or_empty local_version) of
                   Inl e \<Rightarrow> Inl e
                 | Inr left \<Rightarrow> Inl AttributeError))
      else Inr False)"

text \<open>The part of an install after the download: removal of the old installation, then unpacking.\<close>

definition replace_installation ::
  "world \<Rightarrow> string option \<Rightarrow> json \<Rightarrow> (py_error + install_result) option" where
  "replace_installation w local_version remote_version =
     (case remove_old w of
        None \<Rightarrow> None
      | Some InputFailed \<Rightarrow> Some (Inl EOFError)
      | Some Quit \<Rightarrow> Some (Inr (False, opt_json local_version, False))
      | Some Fatal \<Rightarrow> Some (Inr (False, opt_json local_version, False))
      | Some Removed \<Rightarrow>
          (case unpack w of
             UnpackRaised \<Rightarrow> Some (Inr (False, opt_json local_version, False))
           | PayloadMissing \<Rightarrow> Some (Inr (False, opt_json local_version, False))
           | PayloadCopied \<Rightarrow>
               Some (Inr (True, py_or remote_version (opt_json local_version), True))))"

text \<open>
  \<open>install_maafw\<close> and \<open>install_mxu\<close>: the result, or the exception that leaves the
  function, together with the network calls made; \<open>None\<close> when the removal loop never ends.
\<close>

definition install_maafw ::
  "string \<Rightarrow> string \<Rightarrow> world \<Rightarrow> bool \<Rightarrow> bool \<Rightarrow> string option
     \<Rightarrow> ((py_error + install_result) \<times> event list) option" where
  "install_maafw os_keyword arch_keyword w skip_if_exist update_mode local_version =
     (let maafw_installed = artifact_installed w
      in if skip_if_exist \<and> maafw_installed
         then Some (Inr (True, opt_json local_version, False), [])
         else
           let (url, filename, remote_version) =
                 get_latest_release_url (feeds w) MFW_REPO [''maa'', os_keyword, arch_keyword] True
           in if \<not> truthy url \<or> \<not> truthy filename
              then Some (Inr (False, opt_json local_version, False), [Resolve MFW_REPO])
              else
                (case version_current update_mode maafw_installed local_version remote_version of
                   Inl e \<Rightarrow> Some (Inl e, [Resolve MFW_REPO])
                 | Inr True \<Rightarrow> Some (Inr (True, opt_json local_version, False), [Resolve MFW_REPO])
                 | Inr False \<Rightarrow>
                     if \<not> fst (download_file (float_fmt w) (connect w url))
                     then Some (Inr (False, opt_json local_version, False),
                                [Resolve MFW_REPO, Download url])
                     else map_option (\<lambda>r. (r, [Resolve MFW_REPO, Download url]))
                            (replace_installation w local_version remote_version)))"

definition install_mxu ::
  "string \<Rightarrow> string \<Rightarrow> world \<Rightarrow> bool \<Rightarrow> bool \<Rightarrow> string option
     \<Rightarrow> ((py_error + install_result) \<times> event list) option" where
  "install_mxu os_keyword arch_keyword w skip_if_exist update_mode local_version =
     (let mxu_installed = artifact_installed w
      in if skip_if_exist \<and> mxu_installed
         then Some (Inr (True, opt_json local_version, False), [])
         else
           let (url, filename, remote_version) =
                 get_latest_release_url (feeds w) MXU_REPO [''mxu'', os_keyword, arch_keyword] True
           in if \<not> truthy url \<or> \<not> truthy filename
              then Some (Inr (False, opt_json local_version, False), [Resolve MXU_REPO])
              else
                (case version_current update_mode mxu_installed local_version remote_version of
                   Inl e \<Rightarrow> Some (Inl e, [Resolve MXU_REPO])
                 | Inr True \<Rightarrow> Some (Inr (True, opt_json local_version, False), [Resolve MXU_REPO])
                 | Inr False \<Rightarrow>
                     if \<not> fst (download_file (float_fmt w) (connect w url))
                     then Some (Inr (False, opt_json local_version, False),
                                [Resolve MXU_REPO, Download url])
                     else map_option (\<lambda>r. (r, [Resolve MXU_REPO, Download url]))
                            (replace_installation w local_version remote_version)))"

text \<open>
  The bookkeeping of \<open>main\<close> after each install: the ledger in memory, with the values as
  Python values, and \<open>if version: versions[key] = version\<close>.
\<close>

definition ledger_values :: "ledger \<Rightarrow> (string \<rightharpoonup> json)" where
  "ledger_values local_versions = (\<lambda>k. map_option JStr (local_versions k))"

definition record_version :: "(string \<rightharpoonup> json) \<Rightarrow> string \<Rightarrow> json \<Rightarrow> (string \<rightharpoonup> json)" where
  "record_version versions key version =
     (if truthy version then versions(key \<mapsto> version) else versions)"

text \<open>
  The install gets as far as removing an existing installation: the artifact is not
  skipped, a release is resolved, the update check does not end the install, the download
  succeeds and the destination exists.
\<close>

definition reaches_removal :: "string \<Rightarrow> string list \<Rightarrow> world \<Rightarrow> bool \<Rightarrow> bool \<Rightarrow> string option \<Rightarrow> bool" where
  "reaches_removal repo keys w skip_if_exist update_mode local_version =
     (let (url, filename, remote_version) = get_latest_release_url (feeds w) repo keys True
      in \<not> (skip_if_exist \<and> artifact_installed w)
         \<and> truthy url \<and> truthy filename
         \<and> version_current update_mode (artifact_installed w) local_version remote_version = Inr False
         \<and> fst (download_file (float_fmt w) (connect w url))
         \<and> dest_exists w)"

text \<open>
  An example: both artifacts are installed, the feed of every repository is
  \<open>example_feed\<close> followed by one release of \<open>mxu\<close>, and the download succeeds.
\<close>

definition example_world :: "rm_outcome stream \<Rightarrow> reply stream \<Rightarrow> world" where
  "example_world outcomes inputs =
     \<lparr>feeds = serving (example_feed @
                [JObj [(''tag_name'', JStr ''v1.7.2''),
                       (''assets'', JArr [asset_entry ''mxu-linux-x86_64.zip'' ''u6''])]]),
      artifact_installed = True,
      connect = (\<lambda>url. Connected NoHeader [Chunk 8192 1]),
      float_fmt = (\<lambda>x. ''0.0''),
      dest_exists = True,
      removals = outcomes,
      replies = inputs,
      unpack = PayloadCopied\<rparr>"

section \<open>Verified properties\<close>

subsection \<open>VersionComparator\<close>







lemma compare_loop_find:
  "compare_loop ps = (case find (\<lambda>(l, r). l \<noteq> r) ps of None \<Rightarrow> 0 | Some (l, r) \<Rightarrow> if l > r then 1 else - 1)"
  by (induction ps rule: compare_loop.induct) auto

text \<open>
  Claim C4, as amended. For non-empty strings \<open>a\<close> and \<open>b\<close> that \<open>parse_semver\<close> reads,
  \<open>compare_semver\<close> is the comparison rule of the specification (\<open>spec_compare\<close>) on the
  two parsed sequences: both are padded on the right with zeros to equal length and the
  first differing component decides. An absent value against a non-empty string makes the
  string the greater one, two absent values compare equal, and the four examples of the
  specification hold.
\<close>

theorem compare_semver_rules:
  "(a \<noteq> [] \<and> b \<noteq> [] \<and> parse_semver a = Inr xs \<and> parse_semver b = Inr ys \<longrightarrow>
      compare_semver (Some a) (Some b) = Inr (spec_compare xs ys))
   \<and> (a \<noteq> [] \<longrightarrow> compare_semver (Some a) None = Inr 1 \<and> compare_semver None (Some a) = Inr (- 1))
   \<and> compare_semver None None = Inr 0
   \<and> compare_semver (Some ''1.0.0'') None = Inr 1
   \<and> compare_semver None (Some ''1.0.0'') = Inr (- 1)
   \<and> compare_semver (Some ''1.10.0'') (Some ''1.9.9'') = Inr 1"
proof -
  have pair: "compare_semver (Some a) (Some b) = Inr (spec_compare xs ys)"
    if "a \<noteq> []" "b \<noteq> []" "parse_semver a = Inr xs" "parse_semver b = Inr ys"
    using that
    by (simp add: compare_semver_def truthy_str_def or_empty_def spec_compare_def pad_to_def
        Let_def compare_loop_find)
  have absent: "compare_semver (Some a) None = Inr 1 \<and> compare_semver None (Some a) = Inr (- 1)"
    if "a \<noteq> []"
    using that by (simp add: compare_semver_def truthy_str_def)
  have none: "compare_semver None None = Inr 0"
    by (simp add: compare_semver_def truthy_str_def)
  have e1: "compare_semver (Some ''1.0.0'') None = Inr 1"
    by (simp add: compare_semver_def truthy_str_def)
  have e2: "compare_semver None (Some ''1.0.0'') = Inr (- 1)"
    by (simp add: compare_semver_def truthy_str_def)
  have e3: "compare_semver (Some ''1.10.0'') (Some ''1.9.9'') = Inr 1"
    by code_simp
  from pair absent none e1 e2 e3 show ?thesis by blast
qed

text \<open>The theorem for C4 at \<open>"1.2"\<close> against \<open>"v1.10.1-rc1"\<close>.\<close>

theorem compare_semver_rules_witness:
  "parse_semver ''1.2'' = Inr [1, 2]
   \<and> parse_semver ''v1.10.1-rc1'' = Inr [1, 10, 1]
   \<and> compare_semver (Some ''1.2'') (Some ''v1.10.1-rc1'') = Inr (spec_compare [1, 2] [1, 10, 1])
   \<and> spec_compare [1, 2] [1, 10, 1] = - 1
   \<and> compare_semver (Some ''1.2'') None = Inr 1
   \<and> compare_semver None (Some ''1.2'') = Inr (- 1)"
proof -
  have ne: "''1.2'' \<noteq> []" "''v1.10.1-rc1'' \<noteq> []" by simp_all
  have p: "parse_semver ''1.2'' = Inr [1, 2]" "parse_semver ''v1.10.1-rc1'' = Inr [1, 10, 1]"
    by code_simp+
  have v: "spec_compare [1, 2] [1, 10, 1] = - 1"
    by code_simp
  from compare_semver_rules [of "''1.2''" "''v1.10.1-rc1''" "[1, 2]" "[1, 10, 1]"] ne p v
  show ?thesis by simp
qed

text \<open>
  Claim C4 as stated fails for the present but empty string: \<open>compare_semver("0", "")\<close>
  returns 1, while the parsed sequences \<open>[0]\<close> and \<open>[]\<close> are equal after padding and the
  rule of the specification gives 0. It also fails for a present string with a superscript
  digit, which \<open>str.isdigit\<close> accepts and \<open>int\<close> rejects: \<open>compare_semver\<close> raises
  \<open>ValueError\<close> and returns nothing.
\<close>

theorem compare_semver_rules_counterexample:
  "compare_semver (Some ''0'') (Some '''') = Inr 1
   \<and> parse_semver ''0'' = Inr [0]
   \<and> parse_semver '''' = Inr []
   \<and> spec_compare [0] [] = 0
   \<and> compare_semver (Some [CHR ''1'', CHR ''.'', char_of (178 :: nat)]) (Some ''1'') = Inl ValueError"
  by code_simp




lemma split_on_head:
  "split_on sep (c # cs) = part # parts \<Longrightarrow> part \<noteq> [] \<Longrightarrow> c \<noteq> sep"
  by (auto split: if_splits list.splits)












text \<open>
  Claim C10. \<open>compare_semver\<close> treats the empty string like an absent value: the three
  stated results hold, and replacing an absent argument by \<open>""\<close> on either side never
  changes the result.
\<close>

theorem compare_semver_empty_is_absent:
  "compare_semver (Some '''') (Some '''') = Inr 0
   \<and> compare_semver (Some ''1.0.0'') (Some '''') = Inr 1
   \<and> compare_semver (Some '''') (Some ''1.0.0'') = Inr (- 1)
   \<and> compare_semver (Some '''') b = compare_semver None b
   \<and> compare_semver a (Some '''') = compare_semver a None"
  by (simp add: compare_semver_def truthy_str_def)

subsection \<open>ReleaseResolver\<close>

lemma contains_iff: "contains s t \<longleftrightarrow> (\<exists>u v. t = u @ s @ v)"
proof (induction t)
  case Nil
  then show ?case by auto
next
  case (Cons c cs)
  show ?case
  proof
    assume "contains s (c # cs)"
    then consider "take (length s) (c # cs) = s" | "contains s cs" by auto
    then show "\<exists>u v. c # cs = u @ s @ v"
    proof cases
      case 1
      then have "c # cs = [] @ s @ drop (length s) (c # cs)"
        by (metis append_Nil append_take_drop_id)
      then show ?thesis by blast
    next
      case 2
      with Cons obtain u v where "cs = u @ s @ v" by blast
      then have "c # cs = (c # u) @ s @ v" by simp
      then show ?thesis by blast
    qed
  next
    assume "\<exists>u v. c # cs = u @ s @ v"
    then obtain u v where uv: "c # cs = u @ s @ v" by blast
    show "contains s (c # cs)"
    proof (cases u)
      case Nil
      with uv have "take (length s) (c # cs) = s" by simp
      then show ?thesis by simp
    next
      case (Cons d u')
      with uv have "cs = u' @ s @ v" by simp
      with Cons.IH show ?thesis by auto
    qed
  qed
qed


lemma scan_assets_wf:
  "list_all wf_asset assets \<Longrightarrow>
   scan_assets keywords t assets =
     Inr (case find (asset_matches keywords) assets of
            None \<Rightarrow> None
          | Some asset \<Rightarrow> Some (resolved (JObj t) asset))"
proof (induction assets)
  case Nil
  then show ?case by simp
next
  case (Cons asset rest)
  from Cons.prems obtain a n url where a: "asset = JObj a" "map_of a ''name'' = Some (JStr n)"
    "map_of a ''browser_download_url'' = Some url"
    by (auto simp: wf_asset_def split: json.splits option.splits)
  from Cons have IH: "scan_assets keywords t rest =
     Inr (case find (asset_matches keywords) rest of
            None \<Rightarrow> None
          | Some asset \<Rightarrow> Some (resolved (JObj t) asset))" by simp
  have m: "asset_matches keywords asset = list_all (\<lambda>k. contains (lower k) (lower n)) keywords"
    using a by (simp add: asset_matches_def obj_of_def)
  have r: "resolved (JObj t) asset =
     (url, JStr n, py_or (dict_get t ''tag_name'' JNull) (dict_get t ''name'' JNull))"
    using a by (simp add: resolved_def obj_of_def dict_get_def)
  show ?case
    using a IH m r by (simp add: Let_def)
qed

lemma find_append:
  "find P (xs @ ys) = (case find P xs of None \<Rightarrow> find P ys | Some x \<Rightarrow> Some x)"
  by (induction xs) auto

lemma find_map_pair:
  "find (\<lambda>(tag, asset). P asset) (map (\<lambda>asset. (t, asset)) xs) = map_option (Pair t) (find P xs)"
  by (induction xs) auto

lemma scan_tags_obj:
  "scan_tags p keywords (JObj t # rest) =
     (if tag_skipped p t then scan_tags p keywords rest
      else (case dict_get t ''assets'' (JArr []) of
              JArr assets \<Rightarrow>
                (case scan_assets keywords t assets of
                   Inl e \<Rightarrow> Inl e
                 | Inr (Some found) \<Rightarrow> Inr found
                 | Inr None \<Rightarrow> scan_tags p keywords rest)
            | _ \<Rightarrow> Inl AssertionError))"
  by (simp add: tag_skipped_def is_prerelease_def is_draft_def)

lemma scan_tags_wf:
  "wf_feed tags \<Longrightarrow>
   scan_tags p keywords tags =
     (case find (\<lambda>(tag, asset). asset_matches keywords asset) (candidates p tags) of
        None \<Rightarrow> Inl ValueError
      | Some (tag, asset) \<Rightarrow> Inr (resolved tag asset))"
proof (induction tags)
  case Nil
  then show ?case by (simp add: candidates_def)
next
  case (Cons tag rest)
  from Cons.prems obtain t assets where t: "tag = JObj t" "dict_get t ''assets'' (JArr []) = JArr assets"
    "list_all wf_asset assets"
    by (auto simp: wf_feed_def wf_tag_def split: json.splits)
  from Cons have IH: "scan_tags p keywords rest =
     (case find (\<lambda>(tag, asset). asset_matches keywords asset) (candidates p rest) of
        None \<Rightarrow> Inl ValueError
      | Some (tag, asset) \<Rightarrow> Inr (resolved tag asset))"
    by (simp add: wf_feed_def)
  have cand: "candidates p (tag # rest) =
     (if tag_skipped p t then candidates p rest
      else map (\<lambda>asset. (tag, asset)) assets @ candidates p rest)"
    using t by (simp add: candidates_def obj_of_def assets_of_def)
  show ?case
  proof (cases "tag_skipped p t")
    case True
    then show ?thesis
      using t IH cand by (simp add: scan_tags_obj del: scan_tags.simps)
  next
    case False
    then show ?thesis
      using t IH cand scan_assets_wf [OF t(3)]
      by (cases "find (asset_matches keywords) assets")
         (simp_all add: scan_tags_obj find_append find_map_pair del: scan_tags.simps)
  qed
qed


lemma asset_matches_substrings:
  "map_of (obj_of asset) ''name'' = Some (JStr n) \<Longrightarrow>
   asset_matches ks asset \<longleftrightarrow> (\<forall>k \<in> set ks. \<exists>u v. lower n = u @ lower k @ v)"
  by (simp add: asset_matches_def list_all_iff contains_iff)

lemma get_latest_serving:
  "get_latest_release_url (serving tags) repo keywords p =
     (case scan_tags p keywords tags of Inl e \<Rightarrow> not_found | Inr found \<Rightarrow> found)"
  by (cases tags) (simp_all add: get_latest_release_url_def release_try_def serving_def)

lemma scan_tags_stops:
  "scan_tags p keywords tags = Inr found \<Longrightarrow> scan_tags p keywords (tags @ later) = Inr found"
proof (induction tags)
  case Nil
  then show ?case by simp
next
  case (Cons tag rest)
  show ?case
  proof (cases tag)
    case (JObj t)
    with Cons show ?thesis
      by (auto simp: scan_tags_obj simp del: scan_tags.simps
          split: if_splits json.splits sum.splits option.splits)
  qed (use Cons.prems in simp_all)
qed

text \<open>
  Claim C2. On every well-formed feed \<open>get_latest_release_url\<close> returns what the
  specification's resolver returns: the download URL, filename and tag name of the first
  asset, in feed order of the eligible tags and listed order of their assets, whose
  lower-cased filename contains every lower-cased keyword; when there is none, the
  not-found triple. The tags are never re-sorted. Resolution stops at the first match:
  once a feed gives a match, the same match is returned whatever follows in the feed. An
  asset matches exactly when each keyword, lower-cased, is a contiguous substring of the
  lower-cased filename.
\<close>

theorem first_match_wins:
  "(wf_feed tags \<longrightarrow>
      get_latest_release_url (serving tags) repo keywords prerelease
        = spec_resolve prerelease keywords tags)
   \<and> (get_latest_release_url (serving tags) repo keywords prerelease \<noteq> not_found \<longrightarrow>
        get_latest_release_url (serving (tags @ later)) repo keywords prerelease
          = get_latest_release_url (serving tags) repo keywords prerelease)
   \<and> (map_of (obj_of asset) ''name'' = Some (JStr n) \<longrightarrow>
        asset_matches keywords asset = (\<forall>k \<in> set keywords. \<exists>u v. lower n = u @ lower k @ v))"
proof -
  have a: "get_latest_release_url (serving tags) repo keywords prerelease
        = spec_resolve prerelease keywords tags" if wf: "wf_feed tags"
    using scan_tags_wf [OF wf]
    by (simp add: get_latest_serving spec_resolve_def split: option.splits prod.splits)
  have b: "get_latest_release_url (serving (tags @ later)) repo keywords prerelease
          = get_latest_release_url (serving tags) repo keywords prerelease"
    if "get_latest_release_url (serving tags) repo keywords prerelease \<noteq> not_found"
  proof (cases "scan_tags prerelease keywords tags")
    case (Inl e)
    with that show ?thesis by (simp add: get_latest_serving)
  next
    case (Inr found)
    from scan_tags_stops [OF this] Inr show ?thesis by (simp add: get_latest_serving)
  qed
  from a b show ?thesis
    using asset_matches_substrings [where asset = asset and n = n and ks = "keywords"] by blast
qed

lemma scan_tags_skip_anywhere:
  "tag_skipped p t \<Longrightarrow>
   scan_tags p keywords (before @ JObj t # after) = scan_tags p keywords (before @ after)"
proof (induction before)
  case Nil
  then show ?case by (simp add: scan_tags_obj del: scan_tags.simps)
next
  case (Cons u before)
  then have IH: "scan_tags p keywords (before @ JObj t # after) = scan_tags p keywords (before @ after)"
    by simp
  show ?case
  proof (cases u)
    case (JObj d)
    then show ?thesis
      by (simp add: scan_tags_obj IH del: scan_tags.simps
          split: json.splits sum.splits option.splits)
  qed simp_all
qed

lemma scan_tags_skipped_prefix:
  "\<forall>u \<in> set before. \<exists>d. u = JObj d \<and> tag_skipped p d \<Longrightarrow>
   scan_tags p keywords (before @ rest) = scan_tags p keywords rest"
proof (induction before)
  case Nil
  then show ?case by simp
next
  case (Cons u before)
  then obtain d where "u = JObj d" "tag_skipped p d" by auto
  with Cons show ?case by (simp add: scan_tags_obj del: scan_tags.simps)
qed

lemma resolved_found:
  "wf_asset a \<Longrightarrow> resolved tag a \<noteq> not_found"
  by (auto simp: wf_asset_def resolved_def not_found_def obj_of_def dict_get_def
      split: json.splits option.splits)

lemma find_list_all: "list_all P xs \<Longrightarrow> find Q xs = Some x \<Longrightarrow> P x"
  by (induction xs) (auto split: if_splits)

lemma scan_tags_select:
  assumes ns: "\<not> tag_skipped p t"
    and before: "\<forall>u \<in> set before. \<exists>d. u = JObj d \<and> tag_skipped p d"
    and assets: "dict_get t ''assets'' (JArr []) = JArr assets"
    and wf: "list_all wf_asset assets"
    and found: "find (asset_matches keywords) assets = Some a"
  shows "scan_tags p keywords (before @ JObj t # after) = Inr (resolved (JObj t) a)"
  using ns assets found scan_assets_wf [OF wf]
  by (simp add: scan_tags_skipped_prefix [OF before] scan_tags_obj del: scan_tags.simps)

text \<open>
  Claim C1. A tag is skipped exactly when prereleases are disallowed and it is marked
  prerelease, or it is marked draft. When the condition holds, the tag can be removed from
  any position of the feed without changing the result. When it does not hold, every
  earlier tag is skipped and the tag has a matching asset, the result is that asset of that
  tag, which is not the not-found triple. In particular, with prereleases allowed a draft
  tag is never selected, and a prerelease tag that is not a draft and has a matching asset
  is selected.
\<close>

theorem skip_prerelease_or_draft:
  "((\<not> p \<and> is_prerelease t) \<or> is_draft t \<longrightarrow>
      get_latest_release_url (serving (before @ JObj t # after)) repo keywords p
        = get_latest_release_url (serving (before @ after)) repo keywords p)
   \<and> (\<not> ((\<not> p \<and> is_prerelease t) \<or> is_draft t)
        \<and> (\<forall>u \<in> set before. \<exists>d. u = JObj d \<and> ((\<not> p \<and> is_prerelease d) \<or> is_draft d))
        \<and> dict_get t ''assets'' (JArr []) = JArr assets \<and> list_all wf_asset assets
        \<and> find (asset_matches keywords) assets = Some a \<longrightarrow>
      get_latest_release_url (serving (before @ JObj t # after)) repo keywords p
        = resolved (JObj t) a
      \<and> resolved (JObj t) a \<noteq> not_found)
   \<and> (is_draft t \<longrightarrow>
      get_latest_release_url (serving (before @ JObj t # after)) repo keywords True
        = get_latest_release_url (serving (before @ after)) repo keywords True)
   \<and> (\<not> is_draft t \<and> is_prerelease t
        \<and> dict_get t ''assets'' (JArr []) = JArr assets \<and> list_all wf_asset assets
        \<and> find (asset_matches keywords) assets = Some a \<longrightarrow>
      get_latest_release_url (serving (JObj t # after)) repo keywords True
        = resolved (JObj t) a)"
proof -
  have skip: "get_latest_release_url (serving (before @ JObj t # after)) repo keywords q
        = get_latest_release_url (serving (before @ after)) repo keywords q"
    if "tag_skipped q t" for q
    using that by (simp add: get_latest_serving scan_tags_skip_anywhere)
  have sel: "get_latest_release_url (serving (pre @ JObj t # after)) repo keywords q
        = resolved (JObj t) a \<and> resolved (JObj t) a \<noteq> not_found"
    if "\<not> tag_skipped q t" "\<forall>u \<in> set pre. \<exists>d. u = JObj d \<and> tag_skipped q d"
       "dict_get t ''assets'' (JArr []) = JArr assets" "list_all wf_asset assets"
       "find (asset_matches keywords) assets = Some a" for q pre
    using scan_tags_select [OF that] resolved_found [OF find_list_all [OF that(4) that(5)]]
    by (simp add: get_latest_serving)
  have c1: "(\<not> p \<and> is_prerelease t) \<or> is_draft t \<longrightarrow>
      get_latest_release_url (serving (before @ JObj t # after)) repo keywords p
        = get_latest_release_url (serving (before @ after)) repo keywords p"
    using skip [of p] by (simp add: tag_skipped_def)
  have c2: "\<not> ((\<not> p \<and> is_prerelease t) \<or> is_draft t)
        \<and> (\<forall>u \<in> set before. \<exists>d. u = JObj d \<and> ((\<not> p \<and> is_prerelease d) \<or> is_draft d))
        \<and> dict_get t ''assets'' (JArr []) = JArr assets \<and> list_all wf_asset assets
        \<and> find (asset_matches keywords) assets = Some a \<longrightarrow>
      get_latest_release_url (serving (before @ JObj t # after)) repo keywords p
        = resolved (JObj t) a
      \<and> resolved (JObj t) a \<noteq> not_found"
    using sel [of p before] by (simp add: tag_skipped_def)
  have c3: "is_draft t \<longrightarrow>
      get_latest_release_url (serving (before @ JObj t # after)) repo keywords True
        = get_latest_release_url (serving (before @ after)) repo keywords True"
    using skip [of True] by (simp add: tag_skipped_def)
  have c4: "\<not> is_draft t \<and> is_prerelease t
        \<and> dict_get t ''assets'' (JArr []) = JArr assets \<and> list_all wf_asset assets
        \<and> find (asset_matches keywords) assets = Some a \<longrightarrow>
      get_latest_release_url (serving (JObj t # after)) repo keywords True
        = resolved (JObj t) a"
    using sel [of True "[]"] by (simp add: tag_skipped_def)
  from c1 c2 c3 c4 show ?thesis by blast
qed

lemma scan_assets_no_match:
  "\<forall>asset \<in> set assets. \<not> asset_matches keywords asset \<Longrightarrow>
   scan_assets keywords t assets \<noteq> Inr (Some found)"
proof (induction assets)
  case Nil
  then show ?case by simp
next
  case (Cons asset rest)
  then have IH: "scan_assets keywords t rest \<noteq> Inr (Some found)" by simp
  from Cons.prems have nm: "\<not> asset_matches keywords asset" by simp
  show ?case
    using IH nm
    by (auto simp: asset_matches_def obj_of_def Let_def split: json.splits option.splits)
qed

lemma scan_tags_no_match:
  "\<forall>tag \<in> set tags. \<forall>asset \<in> set (assets_of tag). \<not> asset_matches keywords asset \<Longrightarrow>
   scan_tags p keywords tags \<noteq> Inr found"
proof (induction tags)
  case Nil
  then show ?case by simp
next
  case (Cons tag rest)
  then have IH: "scan_tags p keywords rest \<noteq> Inr found" by simp
  show ?case
  proof (cases tag)
    case (JObj t)
    show ?thesis
    proof (cases "dict_get t ''assets'' (JArr [])")
      case (JArr assets)
      with JObj Cons.prems have "\<forall>asset \<in> set assets. \<not> asset_matches keywords asset"
        by (simp add: assets_of_def obj_of_def)
      then have "\<And>f. scan_assets keywords t assets \<noteq> Inr (Some f)"
        by (rule scan_assets_no_match)
      with JObj JArr IH show ?thesis
        by (auto simp: scan_tags_obj simp del: scan_tags.simps split: sum.splits option.splits)
    qed (use JObj IH in \<open>simp_all add: scan_tags_obj del: scan_tags.simps\<close>)
  qed simp_all
qed

text \<open>
  Claim C6. \<open>get_latest_release_url\<close> returns the not-found triple whenever the body of
  its \<open>try\<close> block raises, in particular when the request or the parse fails; when the
  feed is empty; and when no asset of any tag matches all keywords. The function is total:
  no exception reaches the caller, and an empty feed and a feed without a match give the
  same result.
\<close>

theorem resolver_never_raises:
  "(release_try (net repo) keywords p = Inl e \<longrightarrow>
      get_latest_release_url net repo keywords p = not_found)
   \<and> (net repo = Inl e \<longrightarrow> get_latest_release_url net repo keywords p = not_found)
   \<and> get_latest_release_url (serving []) repo keywords p = not_found
   \<and> ((\<forall>tag \<in> set tags. \<forall>asset \<in> set (assets_of tag). \<not> asset_matches keywords asset) \<longrightarrow>
        get_latest_release_url (serving tags) repo keywords p = not_found)"
proof -
  have a: "release_try (net repo) keywords p = Inl e \<longrightarrow>
      get_latest_release_url net repo keywords p = not_found"
    by (simp add: get_latest_release_url_def)
  have b: "net repo = Inl e \<longrightarrow> get_latest_release_url net repo keywords p = not_found"
    by (simp add: get_latest_release_url_def release_try_def)
  have c: "get_latest_release_url (serving []) repo keywords p = not_found"
    by (simp add: get_latest_serving)
  have d: "get_latest_release_url (serving tags) repo keywords p = not_found"
    if "\<forall>tag \<in> set tags. \<forall>asset \<in> set (assets_of tag). \<not> asset_matches keywords asset"
    using scan_tags_no_match [OF that, of p]
    by (simp add: get_latest_serving split: sum.splits)
  from a b c d show ?thesis by blast
qed


text \<open>
  The theorem for C2 on \<open>example_feed\<close>: the older tag \<open>v1.0\<close>, listed first, wins over
  \<open>v2.0\<close>, and within it the third asset, the first to contain all three keywords;
  a malformed entry appended to the feed changes nothing.
\<close>

theorem first_match_wins_witness:
  "wf_feed example_feed
   \<and> get_latest_release_url (serving example_feed) ''MaaXYZ/MaaFramework''
         [''maa'', ''linux'', ''x86_64''] True
       = spec_resolve True [''maa'', ''linux'', ''x86_64''] example_feed
   \<and> spec_resolve True [''maa'', ''linux'', ''x86_64''] example_feed
       = (JStr ''u2'', JStr ''MAA-Linux-x86_64.tar.gz'', JStr ''v1.0'')
   \<and> get_latest_release_url (serving (example_feed @ [JNull])) ''MaaXYZ/MaaFramework''
         [''maa'', ''linux'', ''x86_64''] True
       = (JStr ''u2'', JStr ''MAA-Linux-x86_64.tar.gz'', JStr ''v1.0'')"
proof -
  have wf: "wf_feed example_feed" by code_simp
  have v: "spec_resolve True [''maa'', ''linux'', ''x86_64''] example_feed
       = (JStr ''u2'', JStr ''MAA-Linux-x86_64.tar.gz'', JStr ''v1.0'')" by code_simp
  have nf: "(JStr ''u2'', JStr ''MAA-Linux-x86_64.tar.gz'', JStr ''v1.0'') \<noteq> not_found"
    by (simp add: not_found_def)
  from first_match_wins [of example_feed "''MaaXYZ/MaaFramework''" "[''maa'', ''linux'', ''x86_64'']" True
      "[JNull]"]
    wf v nf show ?thesis by simp
qed

text \<open>
  The theorem for C1 on \<open>example_feed\<close> preceded by a draft tag (prereleases allowed), by
  a prerelease tag (prereleases disallowed), and by a draft tag followed by a prerelease
  tag (prereleases allowed): the prerelease tag is selected.
\<close>

theorem skip_prerelease_or_draft_witness:
  "get_latest_release_url (serving (JObj draft_tag # example_feed)) ''MaaXYZ/MaaFramework''
       [''maa'', ''linux'', ''x86_64''] True
     = get_latest_release_url (serving example_feed) ''MaaXYZ/MaaFramework''
         [''maa'', ''linux'', ''x86_64''] True
   \<and> get_latest_release_url (serving (JObj beta_tag # example_feed)) ''MaaXYZ/MaaFramework''
       [''maa'', ''linux'', ''x86_64''] False
     = get_latest_release_url (serving example_feed) ''MaaXYZ/MaaFramework''
         [''maa'', ''linux'', ''x86_64''] False
   \<and> get_latest_release_url (serving ([JObj draft_tag] @ JObj beta_tag # example_feed))
       ''MaaXYZ/MaaFramework'' [''maa'', ''linux'', ''x86_64''] True
     = (JStr ''u5'', JStr ''MAA-linux-x86_64.tar.gz'', JStr ''v2.1-beta'')"
proof -
  let ?ks = "[''maa'', ''linux'', ''x86_64'']"
  let ?a = "asset_entry ''MAA-linux-x86_64.tar.gz'' ''u5''"
  have d: "is_draft draft_tag" by code_simp
  have b: "is_prerelease beta_tag" "\<not> is_draft beta_tag" by code_simp+
  have assets: "dict_get beta_tag ''assets'' (JArr []) = JArr [?a]" by code_simp
  have wf: "list_all wf_asset [?a]" by code_simp
  have f: "find (asset_matches ?ks) [?a] = Some ?a" by code_simp
  have r: "resolved (JObj beta_tag) ?a
     = (JStr ''u5'', JStr ''MAA-linux-x86_64.tar.gz'', JStr ''v2.1-beta'')" by code_simp
  have 1: "get_latest_release_url (serving (JObj draft_tag # example_feed)) ''MaaXYZ/MaaFramework'' ?ks True
     = get_latest_release_url (serving example_feed) ''MaaXYZ/MaaFramework'' ?ks True"
    using skip_prerelease_or_draft [of True draft_tag "[]" example_feed "''MaaXYZ/MaaFramework''" ?ks]
      d by simp
  have 2: "get_latest_release_url (serving (JObj beta_tag # example_feed)) ''MaaXYZ/MaaFramework'' ?ks False
     = get_latest_release_url (serving example_feed) ''MaaXYZ/MaaFramework'' ?ks False"
    using skip_prerelease_or_draft [of False beta_tag "[]" example_feed "''MaaXYZ/MaaFramework''" ?ks]
      b by simp
  have 3: "get_latest_release_url (serving ([JObj draft_tag] @ JObj beta_tag # example_feed))
       ''MaaXYZ/MaaFramework'' ?ks True
     = (JStr ''u5'', JStr ''MAA-linux-x86_64.tar.gz'', JStr ''v2.1-beta'')"
    using skip_prerelease_or_draft [of True beta_tag "[JObj draft_tag]" example_feed
        "''MaaXYZ/MaaFramework''" ?ks "[?a]" ?a]
      d b assets wf f r by simp
  from 1 2 3 show ?thesis by blast
qed

text \<open>
  The theorem for C6 on a failing request and on \<open>example_feed\<close> with the keyword
  \<open>mxu\<close>, which no asset contains.
\<close>

theorem resolver_never_raises_witness:
  "get_latest_release_url (\<lambda>repo. Inl URLError) ''MistEO/MXU'' [''mxu'', ''linux'', ''x86_64''] True
     = not_found
   \<and> get_latest_release_url (serving example_feed) ''MistEO/MXU'' [''mxu'', ''linux'', ''x86_64''] True
     = not_found
   \<and> get_latest_release_url (serving []) ''MistEO/MXU'' [''mxu'', ''linux'', ''x86_64''] True
     = get_latest_release_url (serving example_feed) ''MistEO/MXU'' [''mxu'', ''linux'', ''x86_64''] True"
proof -
  let ?ks = "[''mxu'', ''linux'', ''x86_64'']"
  have nm: "\<forall>tag \<in> set example_feed. \<forall>asset \<in> set (assets_of tag). \<not> asset_matches ?ks asset"
    by code_simp
  from resolver_never_raises [of "\<lambda>repo. Inl URLError" "''MistEO/MXU''" ?ks True URLError example_feed]
    nm show ?thesis by simp
qed

subsection \<open>VersionLedger and ProgressDownloader\<close>

text \<open>
  Whenever \<open>path.exists()\<close> returns, \<open>read_versions_file\<close> returns: the empty mapping
  when the file is missing, when opening or parsing it raises, when the parsed content is
  not an object, and when its \<open>versions\<close> entry is not an object. A result that is not
  empty comes from a file whose \<open>versions\<close> entry is an object, and maps each of its keys
  to \<open>str\<close> of the value; by the type of the result every key and every value is a
  string.
\<close>

lemma read_versions_file_caught:
  "read_versions_file rp FileMissing = Inr Map.empty
   \<and> read_versions_file rp (FileUnreadable e) = Inr Map.empty
   \<and> ((\<forall>d. data \<noteq> JObj d) \<longrightarrow> read_versions_file rp (FileLoaded data) = Inr Map.empty)
   \<and> ((\<forall>vs. dict_get d ''versions'' (JObj []) \<noteq> JObj vs) \<longrightarrow>
        read_versions_file rp (FileLoaded (JObj d)) = Inr Map.empty)
   \<and> (read_versions_file rp file = Inr versions \<and> versions \<noteq> Map.empty \<longrightarrow>
        (\<exists>d vs. file = FileLoaded (JObj d) \<and> dict_get d ''versions'' (JObj []) = JObj vs
           \<and> versions = (\<lambda>k. map_option (py_str rp) (map_of vs k))))"
proof -
  have a: "read_versions_file rp FileMissing = Inr Map.empty"
    by (simp add: read_versions_file_def)
  have b: "read_versions_file rp (FileUnreadable e) = Inr Map.empty"
    by (simp add: read_versions_file_def)
  have c: "read_versions_file rp (FileLoaded data) = Inr Map.empty" if "\<forall>d. data \<noteq> JObj d"
    using that by (cases data) (simp_all add: read_versions_file_def read_versions_try_def)
  have d: "read_versions_file rp (FileLoaded (JObj d)) = Inr Map.empty"
    if "\<forall>vs. dict_get d ''versions'' (JObj []) \<noteq> JObj vs"
    using that
    by (cases "dict_get d ''versions'' (JObj [])")
       (simp_all add: read_versions_file_def read_versions_try_def)
  have e: "\<exists>d vs. file = FileLoaded (JObj d) \<and> dict_get d ''versions'' (JObj []) = JObj vs
           \<and> versions = (\<lambda>k. map_option (py_str rp) (map_of vs k))"
    if "read_versions_file rp file = Inr versions" "versions \<noteq> Map.empty"
    using that
    by (auto simp: read_versions_file_def read_versions_try_def
        split: version_file.splits json.splits sum.splits option.splits)
  from a b c d e show ?thesis by blast
qed

text \<open>
  Claim C8 does not hold of \<open>read_versions_file\<close>. The claim is that the function never
  raises and returns the empty mapping for a file that is not there. When \<open>path.exists()\<close>
  itself raises \<open>OSError\<close>, as it does for a path that cannot be examined, the exception
  leaves the function: the test stands before the \<open>try\<close> block whose handler turns every
  other failure to read the file, such as an \<open>OSError\<close> of \<open>open\<close>, into the empty
  mapping.
\<close>

theorem read_versions_file_exists_raises:
  "read_versions_file rp (ExistsRaised OSError) = Inl OSError
   \<and> read_versions_file rp (FileUnreadable OSError) = Inr Map.empty
   \<and> read_versions_file rp FileMissing = Inr Map.empty"
  by (simp add: read_versions_file_def)

lemma progress_unknown_total:
  "progress_str fmt size_received 0 clock =
     to_file_size fmt (Some size_received) @ ''/'' @ fmt 0 @ '' B''
       @ '' ('' @ '''' @ '') | ''
       @ to_speed fmt (of_int size_received / max (1 / 1000000) clock) @ '' | ETA '' @ ''--:--:--''"
  by (simp add: progress_str_def Let_def to_file_size_def to_percentage_def seconds_to_hms_def)

text \<open>
  Claim C9 does not hold of \<open>download_file\<close>. Without a \<open>Content-Length\<close> header the
  total size is 0, not \<open>None\<close>, and every progress text shows the total-size field as the
  formatted number 0 followed by the unit \<open>B\<close> (\<open>0.0 B\<close> in Python), never as the
  placeholder \<open>--\<close> that \<open>to_file_size\<close> keeps for \<open>None\<close>. The percentage field is empty
  and the ETA field is the placeholder \<open>--:--:--\<close>.
\<close>

theorem unknown_total_renders_zero_size:
  "size_total_of NoHeader = Inr 0
   \<and> progress_str fmt size_received 0 clock =
       to_file_size fmt (Some size_received) @ ''/'' @ fmt 0 @ '' B''
         @ '' ('' @ '''' @ '') | ''
         @ to_speed fmt (of_int size_received / max (1 / 1000000) clock) @ '' | ETA '' @ ''--:--:--''
   \<and> download_file fmt (Connected NoHeader [Chunk 8192 1])
       = (True, [fmt 8 @ '' KB/'' @ fmt 0 @ '' B () | '' @ fmt 8 @ '' KB/s | ETA --:--:--''])
   \<and> to_file_size fmt (Some 0) \<noteq> ''--''
   \<and> to_file_size fmt None = ''--''
   \<and> seconds_to_hms None = ''--:--:--''"
proof -
  have a: "size_total_of NoHeader = Inr 0" by (simp add: size_total_of_def)
  have b: "progress_str fmt size_received 0 clock =
       to_file_size fmt (Some size_received) @ ''/'' @ fmt 0 @ '' B''
         @ '' ('' @ '''' @ '') | ''
         @ to_speed fmt (of_int size_received / max (1 / 1000000) clock) @ '' | ETA '' @ ''--:--:--''"
    by (rule progress_unknown_total)
  have c: "download_file fmt (Connected NoHeader [Chunk 8192 1])
       = (True, [fmt 8 @ '' KB/'' @ fmt 0 @ '' B () | '' @ fmt 8 @ '' KB/s | ETA --:--:--''])"
    by (simp add: download_file_def a progress_unknown_total to_file_size_def to_speed_def Let_def)
  have d: "to_file_size fmt (Some 0) \<noteq> ''--''"
  proof
    assume "to_file_size fmt (Some 0) = ''--''"
    then have "fmt 0 @ '' B'' = ''--''" by (simp add: to_file_size_def)
    then have "last (fmt 0 @ '' B'') = last ''--''" by simp
    then show False by simp
  qed
  have e: "to_file_size fmt None = ''--''" by (simp add: to_file_size_def)
  have f: "seconds_to_hms None = ''--:--:--''" by (simp add: seconds_to_hms_def)
  from a b c d e f show ?thesis by blast
qed

subsection \<open>LockedReplaceInstaller\<close>

text \<open>
  Once an install reaches the removal, its result is that of \<open>replace_installation\<close>, and
  the network calls are the feed query and the download.
\<close>

lemma install_maafw_replace:
  assumes "reaches_removal MFW_REPO [''maa'', os_keyword, arch_keyword] w skip_if_exist update_mode local_version"
  shows "install_maafw os_keyword arch_keyword w skip_if_exist update_mode local_version
       = map_option (\<lambda>r. (r, [Resolve MFW_REPO, Download (fst (get_latest_release_url (feeds w) MFW_REPO
                                   [''maa'', os_keyword, arch_keyword] True))]))
           (replace_installation w local_version
              (snd (snd (get_latest_release_url (feeds w) MFW_REPO
                                   [''maa'', os_keyword, arch_keyword] True))))"
  using assms
  by (auto simp: reaches_removal_def install_maafw_def Let_def split: prod.splits)

lemma install_mxu_replace:
  assumes "reaches_removal MXU_REPO [''mxu'', os_keyword, arch_keyword] w skip_if_exist update_mode local_version"
  shows "install_mxu os_keyword arch_keyword w skip_if_exist update_mode local_version
       = map_option (\<lambda>r. (r, [Resolve MXU_REPO, Download (fst (get_latest_release_url (feeds w) MXU_REPO
                                   [''mxu'', os_keyword, arch_keyword] True))]))
           (replace_installation w local_version
              (snd (snd (get_latest_release_url (feeds w) MXU_REPO
                                   [''mxu'', os_keyword, arch_keyword] True))))"
  using assms
  by (auto simp: reaches_removal_def install_mxu_def Let_def split: prod.splits)

lemma reaches_removal_dest: "reaches_removal repo keys w skip_if_exist update_mode local_version \<Longrightarrow> dest_exists w"
  by (auto simp: reaches_removal_def Let_def split: prod.splits)

lemma reaches_removal_streams:
  "reaches_removal repo keys (w\<lparr>removals := outcomes, replies := inputs\<rparr>) skip_if_exist update_mode local_version
     = reaches_removal repo keys w skip_if_exist update_mode local_version"
  by (simp add: reaches_removal_def)

lemma removal_loop_fatal:
  "shd outcomes = RmOtherError \<Longrightarrow> removal_loop outcomes inputs = Some Fatal"
  by (subst removal_loop.simps) simp

lemma removal_loop_quit:
  "shd outcomes = RmPermissionError \<Longrightarrow> shd inputs = Line s \<Longrightarrow> lower (strip s) = ''q'' \<Longrightarrow>
   removal_loop outcomes inputs = Some Quit"
  by (subst removal_loop.simps) simp

lemma removal_loop_retry:
  "shd outcomes = RmPermissionError \<Longrightarrow> shd inputs = Line s \<Longrightarrow> lower (strip s) \<noteq> ''q'' \<Longrightarrow>
   removal_loop outcomes inputs = removal_loop (stl outcomes) (stl inputs)"
  by (subst removal_loop.simps) simp

lemma removal_loop_ok:
  "shd outcomes = RmOk \<Longrightarrow> removal_loop outcomes inputs = Some Removed"
  by (subst removal_loop.simps) simp

lemma replace_fatal:
  "dest_exists w \<Longrightarrow> shd (removals w) = RmOtherError \<Longrightarrow>
   replace_installation w local_version remote_version = Some (Inr (False, opt_json local_version, False))"
  by (simp add: replace_installation_def remove_old_def removal_loop_fatal)

lemma replace_quit:
  "dest_exists w \<Longrightarrow> shd (removals w) = RmPermissionError \<Longrightarrow> shd (replies w) = Line s \<Longrightarrow>
   lower (strip s) = ''q'' \<Longrightarrow>
   replace_installation w local_version remote_version = Some (Inr (False, opt_json local_version, False))"
  by (simp add: replace_installation_def remove_old_def removal_loop_quit)

lemma replace_retry:
  "dest_exists w \<Longrightarrow> shd (removals w) = RmPermissionError \<Longrightarrow> shd (replies w) = Line s \<Longrightarrow>
   lower (strip s) \<noteq> ''q'' \<Longrightarrow>
   replace_installation w local_version remote_version
     = replace_installation (w\<lparr>removals := stl (removals w), replies := stl (replies w)\<rparr>)
         local_version remote_version"
  by (simp add: replace_installation_def remove_old_def removal_loop_retry
      split: option.splits loop_exit.splits)

text \<open>
  Claim C3. Let \<open>install_maafw\<close>, respectively \<open>install_mxu\<close>, get as far as removing an
  existing installation. When the removal raises an exception other than
  \<open>PermissionError\<close>, the install ends at once with the failure result
  \<open>(False, local_version, False)\<close>, whatever later attempts would do. When it raises
  \<open>PermissionError\<close> the operator is asked: on the input \<open>q\<close>, after trimming and
  lower-casing, the install ends with the same failure result; on any other input the
  removal is tried again, so the install behaves as it does on the remaining removal
  outcomes and the remaining inputs.
\<close>

theorem locked_removal_retry:
  "(reaches_removal MFW_REPO [''maa'', os_keyword, arch_keyword] w skip_if_exist update_mode local_version \<longrightarrow>
      (shd (removals w) = RmOtherError \<longrightarrow>
         (\<exists>url. install_maafw os_keyword arch_keyword w skip_if_exist update_mode local_version
            = Some (Inr (False, opt_json local_version, False), [Resolve MFW_REPO, Download url])))
      \<and> (shd (removals w) = RmPermissionError \<and> shd (replies w) = Line s \<and> lower (strip s) = ''q'' \<longrightarrow>
         (\<exists>url. install_maafw os_keyword arch_keyword w skip_if_exist update_mode local_version
            = Some (Inr (False, opt_json local_version, False), [Resolve MFW_REPO, Download url])))
      \<and> (shd (removals w) = RmPermissionError \<and> shd (replies w) = Line s \<and> lower (strip s) \<noteq> ''q'' \<longrightarrow>
         install_maafw os_keyword arch_keyword w skip_if_exist update_mode local_version
            = install_maafw os_keyword arch_keyword
                (w\<lparr>removals := stl (removals w), replies := stl (replies w)\<rparr>)
                skip_if_exist update_mode local_version))
   \<and> (reaches_removal MXU_REPO [''mxu'', os_keyword, arch_keyword] w skip_if_exist update_mode local_version \<longrightarrow>
      (shd (removals w) = RmOtherError \<longrightarrow>
         (\<exists>url. install_mxu os_keyword arch_keyword w skip_if_exist update_mode local_version
            = Some (Inr (False, opt_json local_version, False), [Resolve MXU_REPO, Download url])))
      \<and> (shd (removals w) = RmPermissionError \<and> shd (replies w) = Line s \<and> lower (strip s) = ''q'' \<longrightarrow>
         (\<exists>url. install_mxu os_keyword arch_keyword w skip_if_exist update_mode local_version
            = Some (Inr (False, opt_json local_version, False), [Resolve MXU_REPO, Download url])))
      \<and> (shd (removals w) = RmPermissionError \<and> shd (replies w) = Line s \<and> lower (strip s) \<noteq> ''q'' \<longrightarrow>
         install_mxu os_keyword arch_keyword w skip_if_exist update_mode local_version
            = install_mxu os_keyword arch_keyword
                (w\<lparr>removals := stl (removals w), replies := stl (replies w)\<rparr>)
                skip_if_exist update_mode local_version))"
proof -
  let ?w' = "w\<lparr>removals := stl (removals w), replies := stl (replies w)\<rparr>"
  have maafw: "(shd (removals w) = RmOtherError \<longrightarrow>
         (\<exists>url. install_maafw os_keyword arch_keyword w skip_if_exist update_mode local_version
            = Some (Inr (False, opt_json local_version, False), [Resolve MFW_REPO, Download url])))
      \<and> (shd (removals w) = RmPermissionError \<and> shd (replies w) = Line s \<and> lower (strip s) = ''q'' \<longrightarrow>
         (\<exists>url. install_maafw os_keyword arch_keyword w skip_if_exist update_mode local_version
            = Some (Inr (False, opt_json local_version, False), [Resolve MFW_REPO, Download url])))
      \<and> (shd (removals w) = RmPermissionError \<and> shd (replies w) = Line s \<and> lower (strip s) \<noteq> ''q'' \<longrightarrow>
         install_maafw os_keyword arch_keyword w skip_if_exist update_mode local_version
            = install_maafw os_keyword arch_keyword ?w' skip_if_exist update_mode local_version)"
    if r: "reaches_removal MFW_REPO [''maa'', os_keyword, arch_keyword] w skip_if_exist update_mode local_version"
  proof -
    note d = reaches_removal_dest [OF r]
    from r have r': "reaches_removal MFW_REPO [''maa'', os_keyword, arch_keyword] ?w' skip_if_exist update_mode local_version"
      by (simp add: reaches_removal_streams)
    show ?thesis
      by (simp add: install_maafw_replace [OF r] install_maafw_replace [OF r']
          replace_fatal [OF d] replace_quit [OF d] replace_retry [OF d])
  qed
  have mxu: "(shd (removals w) = RmOtherError \<longrightarrow>
         (\<exists>url. install_mxu os_keyword arch_keyword w skip_if_exist update_mode local_version
            = Some (Inr (False, opt_json local_version, False), [Resolve MXU_REPO, Download url])))
      \<and> (shd (removals w) = RmPermissionError \<and> shd (replies w) = Line s \<and> lower (strip s) = ''q'' \<longrightarrow>
         (\<exists>url. install_mxu os_keyword arch_keyword w skip_if_exist update_mode local_version
            = Some (Inr (False, opt_json local_version, False), [Resolve MXU_REPO, Download url])))
      \<and> (shd (removals w) = RmPermissionError \<and> shd (replies w) = Line s \<and> lower (strip s) \<noteq> ''q'' \<longrightarrow>
         install_mxu os_keyword arch_keyword w skip_if_exist update_mode local_version
            = install_mxu os_keyword arch_keyword ?w' skip_if_exist update_mode local_version)"
    if r: "reaches_removal MXU_REPO [''mxu'', os_keyword, arch_keyword] w skip_if_exist update_mode local_version"
  proof -
    note d = reaches_removal_dest [OF r]
    from r have r': "reaches_removal MXU_REPO [''mxu'', os_keyword, arch_keyword] ?w' skip_if_exist update_mode local_version"
      by (simp add: reaches_removal_streams)
    show ?thesis
      by (simp add: install_mxu_replace [OF r] install_mxu_replace [OF r']
          replace_fatal [OF d] replace_quit [OF d] replace_retry [OF d])
  qed
  from maafw mxu show ?thesis by blast
qed


lemma example_resolved_maafw:
  "get_latest_release_url (feeds (example_world outcomes inputs)) MFW_REPO [''maa'', ''linux'', ''x86_64''] True
     = (JStr ''u2'', JStr ''MAA-Linux-x86_64.tar.gz'', JStr ''v1.0'')"
proof -
  have "get_latest_release_url
          (serving (example_feed @
                [JObj [(''tag_name'', JStr ''v1.7.2''),
                       (''assets'', JArr [asset_entry ''mxu-linux-x86_64.zip'' ''u6''])]]))
          MFW_REPO [''maa'', ''linux'', ''x86_64''] True
     = (JStr ''u2'', JStr ''MAA-Linux-x86_64.tar.gz'', JStr ''v1.0'')"
    by code_simp
  then show ?thesis by (simp add: example_world_def)
qed

lemma example_resolved_mxu:
  "get_latest_release_url (feeds (example_world outcomes inputs)) MXU_REPO [''mxu'', ''linux'', ''x86_64''] True
     = (JStr ''u6'', JStr ''mxu-linux-x86_64.zip'', JStr ''v1.7.2'')"
proof -
  have "get_latest_release_url
          (serving (example_feed @
                [JObj [(''tag_name'', JStr ''v1.7.2''),
                       (''assets'', JArr [asset_entry ''mxu-linux-x86_64.zip'' ''u6''])]]))
          MXU_REPO [''mxu'', ''linux'', ''x86_64''] True
     = (JStr ''u6'', JStr ''mxu-linux-x86_64.zip'', JStr ''v1.7.2'')"
    by code_simp
  then show ?thesis by (simp add: example_world_def)
qed

lemma example_download: "fst (download_file (\<lambda>x. ''0.0'') (Connected NoHeader [Chunk 8192 1]))"
  by code_simp

lemma example_not_current:
  "version_current True True (Some ''0.9.0'') (JStr ''v1.0'') = Inr False"
  "version_current True True (Some ''0.9.0'') (JStr ''v1.7.2'') = Inr False"
  by code_simp+

lemma example_reaches_maafw:
  "reaches_removal MFW_REPO [''maa'', ''linux'', ''x86_64''] (example_world outcomes inputs)
     False True (Some ''0.9.0'')"
  using example_download example_not_current
  by (simp add: reaches_removal_def example_resolved_maafw) (simp add: example_world_def)

lemma example_reaches_mxu:
  "reaches_removal MXU_REPO [''mxu'', ''linux'', ''x86_64''] (example_world outcomes inputs)
     False True (Some ''0.9.0'')"
  using example_download example_not_current
  by (simp add: reaches_removal_def example_resolved_mxu) (simp add: example_world_def)

lemma example_world_streams:
  "(example_world outcomes inputs)\<lparr>removals := outcomes', replies := inputs'\<rparr>
     = example_world outcomes' inputs'"
  "removals (example_world outcomes inputs) = outcomes"
  "replies (example_world outcomes inputs) = inputs"
  "dest_exists (example_world outcomes inputs)"
  "unpack (example_world outcomes inputs) = PayloadCopied"
  "artifact_installed (example_world outcomes inputs)"
  by (simp_all add: example_world_def)

text \<open>
  The theorem for C3 on four runs: the removal is refused once, the operator presses
  Enter and the second attempt succeeds, so the install completes with the remote version;
  the removal is refused and the operator types \<open>Q\<close> after a no-break space and before a
  blank; the removal of the \<open>mxu\<close> binary fails with another exception although a second
  attempt would succeed.
\<close>

theorem locked_removal_retry_witness:
  "install_maafw ''linux'' ''x86_64''
       (example_world (RmPermissionError ## sconst RmOk) (Line [] ## sconst EndOfInput))
       False True (Some ''0.9.0'')
     = install_maafw ''linux'' ''x86_64'' (example_world (sconst RmOk) (sconst EndOfInput))
         False True (Some ''0.9.0'')
   \<and> install_maafw ''linux'' ''x86_64'' (example_world (sconst RmOk) (sconst EndOfInput))
         False True (Some ''0.9.0'')
     = Some (Inr (True, JStr ''v1.0'', True), [Resolve MFW_REPO, Download (JStr ''u2'')])
   \<and> (\<exists>url. install_maafw ''linux'' ''x86_64''
              (example_world (sconst RmPermissionError) (Line [char_of (160 :: nat), CHR ''Q'', CHR '' ''] ## sconst (Line [])))
              False True (Some ''0.9.0'')
            = Some (Inr (False, JStr ''0.9.0'', False), [Resolve MFW_REPO, Download url]))
   \<and> (\<exists>url. install_mxu ''linux'' ''x86_64''
              (example_world (RmOtherError ## sconst RmOk) (sconst (Line [])))
              False True (Some ''0.9.0'')
            = Some (Inr (False, JStr ''0.9.0'', False), [Resolve MXU_REPO, Download url]))"
proof -
  let ?w1 = "example_world (RmPermissionError ## sconst RmOk) (Line [] ## sconst EndOfInput)"
  let ?w2 = "example_world (sconst RmPermissionError) (Line [char_of (160 :: nat), CHR ''Q'', CHR '' ''] ## sconst (Line []))"
  let ?w3 = "example_world (RmOtherError ## sconst RmOk) (sconst (Line []))"
  have q: "lower (strip [char_of (160 :: nat), CHR ''Q'', CHR '' '']) = ''q''" "lower (strip []) \<noteq> ''q''" by code_simp+
  have 1: "install_maafw ''linux'' ''x86_64'' ?w1 False True (Some ''0.9.0'')
     = install_maafw ''linux'' ''x86_64'' (example_world (sconst RmOk) (sconst EndOfInput))
         False True (Some ''0.9.0'')"
    using locked_removal_retry [of "''linux''" "''x86_64''" ?w1 False True "Some ''0.9.0''" "[]"]
      example_reaches_maafw q
    by (simp add: example_world_streams)
  have 2: "install_maafw ''linux'' ''x86_64'' (example_world (sconst RmOk) (sconst EndOfInput))
         False True (Some ''0.9.0'')
     = Some (Inr (True, JStr ''v1.0'', True), [Resolve MFW_REPO, Download (JStr ''u2'')])"
    by (simp add: install_maafw_replace [OF example_reaches_maafw] example_resolved_maafw
        replace_installation_def remove_old_def removal_loop_ok example_world_streams py_or_def)
  have 3: "\<exists>url. install_maafw ''linux'' ''x86_64'' ?w2 False True (Some ''0.9.0'')
            = Some (Inr (False, JStr ''0.9.0'', False), [Resolve MFW_REPO, Download url])"
    using locked_removal_retry [of "''linux''" "''x86_64''" ?w2 False True "Some ''0.9.0''"
        "[char_of (160 :: nat), CHR ''Q'', CHR '' '']"]
      example_reaches_maafw q
    by (simp add: example_world_streams opt_json_def)
  have 4: "\<exists>url. install_mxu ''linux'' ''x86_64'' ?w3 False True (Some ''0.9.0'')
            = Some (Inr (False, JStr ''0.9.0'', False), [Resolve MXU_REPO, Download url])"
    using locked_removal_retry [of "''linux''" "''x86_64''" ?w3 False True "Some ''0.9.0''"]
      example_reaches_mxu
    by (simp add: example_world_streams opt_json_def)
  from 1 2 3 4 show ?thesis by blast
qed

subsection \<open>InstallOrchestrator\<close>

lemma record_version_same:
  "record_version (ledger_values lv) key (opt_json (lv key)) = ledger_values lv"
proof (cases "lv key")
  case None
  then show ?thesis by (simp add: record_version_def opt_json_def)
next
  case (Some s)
  then have "(ledger_values lv)(key \<mapsto> JStr s) = ledger_values lv"
    by (auto simp: ledger_values_def)
  with Some show ?thesis by (simp add: record_version_def opt_json_def)
qed

text \<open>
  Claim C7. When \<open>skip_if_exist\<close> holds and the expected artifact is on disk,
  \<open>install_maafw\<close> and \<open>install_mxu\<close> return success with the local version unchanged and
  the downloaded flag \<open>False\<close>, and make no network call: neither the feed query of
  \<open>get_latest_release_url\<close> nor \<open>download_file\<close>. In every other case a finished install
  has made at least the feed query. Recording the returned version, as \<open>main\<close> does, leaves
  the ledger as it was.
\<close>

theorem skip_if_exist_short_circuit:
  "(skip_if_exist \<and> artifact_installed w \<longrightarrow>
      install_maafw os_keyword arch_keyword w skip_if_exist update_mode local_version
        = Some (Inr (True, opt_json local_version, False), [])
      \<and> install_mxu os_keyword arch_keyword w skip_if_exist update_mode local_version
        = Some (Inr (True, opt_json local_version, False), []))
   \<and> (\<not> (skip_if_exist \<and> artifact_installed w) \<longrightarrow>
        install_maafw os_keyword arch_keyword w skip_if_exist update_mode local_version \<noteq> Some (r, [])
        \<and> install_mxu os_keyword arch_keyword w skip_if_exist update_mode local_version \<noteq> Some (r, []))
   \<and> record_version (ledger_values lv) ''maafw'' (opt_json (lv ''maafw'')) = ledger_values lv
   \<and> record_version (ledger_values lv) ''mxu'' (opt_json (lv ''mxu'')) = ledger_values lv"
proof -
  have a: "install_maafw os_keyword arch_keyword w skip_if_exist update_mode local_version
        = Some (Inr (True, opt_json local_version, False), [])"
    if "skip_if_exist \<and> artifact_installed w"
    using that by (simp add: install_maafw_def)
  have b: "install_mxu os_keyword arch_keyword w skip_if_exist update_mode local_version
        = Some (Inr (True, opt_json local_version, False), [])"
    if "skip_if_exist \<and> artifact_installed w"
    using that by (simp add: install_mxu_def)
  have c: "install_maafw os_keyword arch_keyword w skip_if_exist update_mode local_version \<noteq> Some (r, [])"
    if "\<not> (skip_if_exist \<and> artifact_installed w)"
    using that
    by (auto simp: install_maafw_def Let_def split: prod.splits sum.splits bool.splits if_splits)
  have d: "install_mxu os_keyword arch_keyword w skip_if_exist update_mode local_version \<noteq> Some (r, [])"
    if "\<not> (skip_if_exist \<and> artifact_installed w)"
    using that
    by (auto simp: install_mxu_def Let_def split: prod.splits sum.splits bool.splits if_splits)
  from a b c d record_version_same show ?thesis by blast
qed


text \<open>
  The theorem for C7 on \<open>example_world\<close>, with \<open>skip_if_exist\<close> set and, for the second
  part, unset.
\<close>

theorem skip_if_exist_short_circuit_witness:
  "install_maafw ''linux'' ''x86_64'' (example_world (sconst RmOk) (sconst EndOfInput))
       True False (Some ''v1.0'')
     = Some (Inr (True, JStr ''v1.0'', False), [])
   \<and> install_mxu ''linux'' ''x86_64'' (example_world (sconst RmOk) (sconst EndOfInput))
       True False (Some ''v1.0'')
     = Some (Inr (True, JStr ''v1.0'', False), [])
   \<and> install_maafw ''linux'' ''x86_64'' (example_world (sconst RmOk) (sconst EndOfInput))
       False True (Some ''v1.0'')
     \<noteq> Some (Inr (True, JStr ''v1.0'', False), [])
   \<and> record_version (ledger_values [''maafw'' \<mapsto> ''v1.0'']) ''maafw''
        (opt_json ([''maafw'' \<mapsto> ''v1.0''] ''maafw''))
     = ledger_values [''maafw'' \<mapsto> ''v1.0'']"
proof -
  let ?w = "example_world (sconst RmOk) (sconst EndOfInput)"
  have i: "artifact_installed ?w" by (simp add: example_world_def)
  have 1: "install_maafw ''linux'' ''x86_64'' ?w True False (Some ''v1.0'')
       = Some (Inr (True, JStr ''v1.0'', False), [])
     \<and> install_mxu ''linux'' ''x86_64'' ?w True False (Some ''v1.0'')
       = Some (Inr (True, JStr ''v1.0'', False), [])"
    using skip_if_exist_short_circuit [of True ?w "''linux''" "''x86_64''" False "Some ''v1.0''"] i
    by (simp add: opt_json_def)
  have 2: "install_maafw ''linux'' ''x86_64'' ?w False True (Some ''v1.0'')
     \<noteq> Some (Inr (True, JStr ''v1.0'', False), [])"
    using skip_if_exist_short_circuit [of False ?w "''linux''" "''x86_64''" True "Some ''v1.0''"
        "Inr (True, JStr ''v1.0'', False)"]
    by simp
  have 3: "record_version (ledger_values [''maafw'' \<mapsto> ''v1.0'']) ''maafw''
        (opt_json ([''maafw'' \<mapsto> ''v1.0''] ''maafw''))
     = ledger_values [''maafw'' \<mapsto> ''v1.0'']"
    using skip_if_exist_short_circuit [of True ?w "''linux''" "''x86_64''" False "Some ''v1.0''"
        "Inr (True, JStr ''v1.0'', False)" "[''maafw'' \<mapsto> ''v1.0'']"]
    by blast
  from 1 2 3 show ?thesis by blast
qed

text \<open>
  The removal loop need not end: when every attempt is refused and the operator answers
  each prompt with Enter, no exit is ever reached.
\<close>

lemma removal_loop_never_ends:
  "removal_loop (sconst RmPermissionError) (sconst (Line [])) = None"
proof -
  have q: "lower (strip []) \<noteq> ''q''" by code_simp
  have ne: "\<not> (outcomes = sconst RmPermissionError \<and> inputs = sconst (Line []))"
    if run: "removal_loop outcomes inputs = Some y" for outcomes inputs y
  proof (rule removal_loop.raw_induct
      [where P = "\<lambda>outcomes inputs y. \<not> (outcomes = sconst RmPermissionError \<and> inputs = sconst (Line []))"])
    fix f outs ins z
    assume IH: "\<And>outs ins z. f outs ins = Some z \<Longrightarrow>
                  \<not> (outs = sconst RmPermissionError \<and> ins = sconst (Line []))"
      and step: "(case shd outs of
                    RmOk \<Rightarrow> Some Removed
                  | RmPermissionError \<Rightarrow>
                      (case shd ins of
                         Line s \<Rightarrow> if lower (strip s) = ''q'' then Some Quit else f (stl outs) (stl ins)
                       | EndOfInput \<Rightarrow> Some InputFailed)
                  | RmOtherError \<Rightarrow> Some Fatal) = Some z"
    show "\<not> (outs = sconst RmPermissionError \<and> ins = sconst (Line []))"
    proof
      assume "outs = sconst RmPermissionError \<and> ins = sconst (Line [])"
      with step q have "f (sconst RmPermissionError) (sconst (Line [])) = Some z" by simp
      from IH [OF this] show False by simp
    qed
  next
    show "removal_loop outcomes inputs = Some y" by (rule run)
  qed
  show ?thesis
  proof (cases "removal_loop (sconst RmPermissionError) (sconst (Line []))")
    case (Some y)
    from ne [OF Some] show ?thesis by simp
  qed simp
qed

end
